theory Spec2Isabelle
  imports Main "HOL-Library.Word"
begin

unbundle bit_operations_syntax

section \<open>Configuration (config.py)\<close>

definition UPLOAD_DELAY_MS :: int where
  "UPLOAD_DELAY_MS = 300"

definition API_RETRY_ATTEMPTS :: nat where
  "API_RETRY_ATTEMPTS = 3"

definition API_RETRY_BACKOFF :: int where
  "API_RETRY_BACKOFF = 2"

section \<open>Formatting integers into messages\<close>

text \<open>
  Python's \<open>str\<close> of an integer, as the f-strings of the client use it: the decimal
  digits, most significant first, with a leading minus sign for a negative number.
\<close>

definition digit_char :: "nat \<Rightarrow> char" where
  "digit_char d = ''0123456789'' ! d"

fun str_nat :: "nat \<Rightarrow> string" where
  "str_nat n = (if n < 10 then [digit_char n] else str_nat (n div 10) @ [digit_char (n mod 10)])"

declare str_nat.simps [simp del]

definition str_int :: "int \<Rightarrow> string" where
  "str_int i = (if i < 0 then CHR ''-'' # str_nat (nat (- i)) else str_nat (nat i))"

section \<open>The transport with retries (r2r_client.py)\<close>

text \<open>
  \<open>class R2RClientError(Exception)\<close> is the only exception class the client defines;
  an instance carries its message. Every other exception that crosses the client (an
  \<open>OSError\<close> of \<open>open\<close>, a \<open>KeyError\<close> or a JSON error while reading a response) is
  \<open>OtherException\<close>.
\<close>

datatype error = R2RClientError string | OtherException string

record response =
  status_code :: int
  resp_text :: string

text \<open>
  One call of \<open>requests.request\<close> either returns a response or raises a
  \<open>requests.RequestException\<close> (connection reset, timeout, DNS failure), whose text is
  kept. The remote side is a function from the attempt number to what that call does.
\<close>

datatype http_result = Response response | RequestException string

text \<open>What one call of \<open>_retry_request\<close> does, in order: requests sent and sleeps (seconds).\<close>

datatype event = Request nat | Sleep int

text \<open>
  The body of \<open>for attempt in range(API_RETRY_ATTEMPTS)\<close>, over the attempts still to
  run. Falling out of the loop raises \<open>Failed after N attempts\<close>. A status that is none
  of 200/201/202, 429, 4xx, 5xx (204 or 301, say) matches no branch: the loop goes to the
  next attempt without sleeping.
\<close>

fun retry_attempts :: "(nat \<Rightarrow> http_result) \<Rightarrow> nat list \<Rightarrow> (error + response) \<times> event list" where
  "retry_attempts srv [] =
     (Inl (R2RClientError (''Failed after '' @ str_nat API_RETRY_ATTEMPTS @ '' attempts'')), [])"
| "retry_attempts srv (attempt # rest) =
     (case srv attempt of
        Response r \<Rightarrow>
          if status_code r \<in> set [200, 201, 202] then (Inr r, [Request attempt])
          else if status_code r = 429 then
            (let wait_time = (2 ^ attempt) * API_RETRY_BACKOFF;
                 (res, evs) = retry_attempts srv rest
             in (res, Request attempt # Sleep wait_time # evs))
          else if 400 \<le> status_code r \<and> status_code r < 500 then
            (Inl (R2RClientError (''HTTP '' @ str_int (status_code r) @ '': '' @ take 200 (resp_text r))),
             [Request attempt])
          else if status_code r \<ge> 500 then
            (let (res, evs) = retry_attempts srv rest
             in (res, Request attempt # Sleep (2 ^ attempt) # evs))
          else
            (let (res, evs) = retry_attempts srv rest
             in (res, Request attempt # evs))
      | RequestException e \<Rightarrow>
          if attempt = API_RETRY_ATTEMPTS - 1 then
            (Inl (R2RClientError (''Request failed after '' @ str_nat API_RETRY_ATTEMPTS
                                  @ '' attempts: '' @ e)),
             [Request attempt])
          else
            (let (res, evs) = retry_attempts srv rest
             in (res, Request attempt # Sleep (2 ^ attempt) # evs)))"

definition retry_request :: "(nat \<Rightarrow> http_result) \<Rightarrow> (error + response) \<times> event list" where
  "retry_request srv = retry_attempts srv [0..<API_RETRY_ATTEMPTS]"

text \<open>The seconds slept and the requests sent during one call.\<close>

fun total_sleep :: "event list \<Rightarrow> int" where
  "total_sleep [] = 0"
| "total_sleep (Sleep s # evs) = s + total_sleep evs"
| "total_sleep (Request _ # evs) = total_sleep evs"

fun requests_sent :: "event list \<Rightarrow> nat list" where
  "requests_sent [] = []"
| "requests_sent (Request k # evs) = k # requests_sent evs"
| "requests_sent (Sleep _ # evs) = requests_sent evs"

section \<open>File selection (file_filter.py)\<close>

text \<open>
  A \<open>pathlib.Path\<close> is the list of its components below the filesystem root. A string is
  the list of its code points (those below 256).
\<close>

type_synonym path = "string list"

definition SUPPORTED_EXTENSIONS :: "(string \<times> string) list" where
  "SUPPORTED_EXTENSIONS = [
     (''.py'', ''python''), (''.js'', ''javascript''), (''.ts'', ''typescript''),
     (''.tsx'', ''typescript''), (''.jsx'', ''javascript''), (''.java'', ''java''),
     (''.cs'', ''csharp''), (''.cpp'', ''cpp''), (''.cc'', ''cpp''), (''.c'', ''c''),
     (''.h'', ''c''), (''.hpp'', ''cpp''), (''.go'', ''go''), (''.rs'', ''rust''),
     (''.rb'', ''ruby''), (''.php'', ''php''), (''.swift'', ''swift''), (''.kt'', ''kotlin''),
     (''.scala'', ''scala''), (''.r'', ''r''), (''.m'', ''objective-c''),
     (''.html'', ''html''), (''.css'', ''css''), (''.scss'', ''scss''), (''.sass'', ''sass''),
     (''.vue'', ''vue''),
     (''.sh'', ''shell''), (''.bash'', ''shell''), (''.zsh'', ''shell''), (''.fish'', ''shell''),
     (''.yaml'', ''txt''), (''.yml'', ''txt''), (''.toml'', ''txt''), (''.json'', ''json''),
     (''.xml'', ''txt''),
     (''.md'', ''markdown''), (''.rst'', ''restructuredtext''), (''.txt'', ''text''),
     (''.png'', ''image''), (''.jpg'', ''image''), (''.jpeg'', ''image''), (''.gif'', ''image''),
     (''.svg'', ''image''), (''.webp'', ''image''),
     (''.puml'', ''plantuml''), (''.plantuml'', ''plantuml'')]"

definition MAX_FILE_SIZE_MB :: int where
  "MAX_FILE_SIZE_MB = 20"

definition MAX_FILE_SIZE_BYTES :: int where
  "MAX_FILE_SIZE_BYTES = MAX_FILE_SIZE_MB * 1024 * 1024"

definition IGNORE_PATTERNS :: "string list" where
  "IGNORE_PATTERNS = [
     ''.git'', ''.svn'', ''.hg'', ''.bzr'',
     ''__pycache__'', ''*.pyc'', ''*.pyo'', ''*.pyd'', ''.pytest_cache'', ''.mypy_cache'',
     ''.tox'', ''.coverage'', ''htmlcov'', ''*.egg-info'', ''.eggs'', ''venv'', ''env'',
     ''.env'', ''.venv'', ''pip-log.txt'', ''poetry.lock'', ''Pipfile.lock'', ''pdm.lock'',
     ''node_modules'', ''bower_components'', ''package-lock.json'', ''yarn.lock'',
     ''pnpm-lock.yaml'', ''bun.lockb'', ''.next'', ''.nuxt'', ''.parcel-cache'', ''.cache'',
     ''npm-debug.log*'', ''yarn-debug.log*'', ''yarn-error.log*'',
     ''target'', ''.gradle'', ''.mvn'', ''*.class'', ''*.jar'', ''*.war'', ''*.ear'',
     ''bin'', ''obj'', ''packages'', ''packages.lock.json'', ''.vs'', ''*.suo'', ''*.user'',
     ''vendor'', ''go.sum'', ''go.work.sum'',
     ''Cargo.lock'',
     ''.bundle'', ''vendor/bundle'', ''Gemfile.lock'',
     ''vendor'', ''composer.lock'', ''composer.phar'',
     ''Package.resolved'',
     ''pubspec.lock'',
     ''mix.lock'',
     ''dist'', ''build'', ''out'', ''release'', ''Debug'', ''Release'',
     ''coverage'', ''.nyc_output'',
     ''logs'', ''*.log'', ''tmp'', ''temp'', ''*.tmp'', ''*.temp'',
     ''.vscode'', ''.idea'', ''*.iml'', ''.sublime-workspace'', ''.sublime-project'',
     ''*.swp'', ''*.swo'', ''*~'', ''.project'', ''.classpath'', ''.settings'',
     ''.DS_Store'', ''Thumbs.db'', ''desktop.ini'']"

subsection \<open>Path operations of pathlib\<close>

definition path_name :: "path \<Rightarrow> string" where
  "path_name p = (if p = [] then [] else last p)"

text \<open>\<open>name.rfind('.')\<close>: the index of the last dot, \<open>None\<close> for Python's \<open>-1\<close>.\<close>

definition rfind_dot :: "string \<Rightarrow> nat option" where
  "rfind_dot name =
     (if CHR ''.'' \<in> set name
      then Some (length name - 1 - length (takeWhile (\<lambda>c. c \<noteq> CHR ''.'') (rev name)))
      else None)"

definition suffix_of :: "string \<Rightarrow> string" where
  "suffix_of name =
     (case rfind_dot name of
        None \<Rightarrow> []
      | Some i \<Rightarrow> if 0 < i \<and> int i < int (length name) - 1 then drop i name else [])"

definition stem_of :: "string \<Rightarrow> string" where
  "stem_of name =
     (case rfind_dot name of
        None \<Rightarrow> name
      | Some i \<Rightarrow> if 0 < i \<and> int i < int (length name) - 1 then take i name else name)"

definition suffix :: "path \<Rightarrow> string" where
  "suffix p = suffix_of (path_name p)"

definition stem :: "path \<Rightarrow> string" where
  "stem p = stem_of (path_name p)"

text \<open>\<open>path.relative_to(root)\<close>; \<open>None\<close> is the \<open>ValueError\<close> of a path not under the root.\<close>

definition relative_to :: "path \<Rightarrow> path \<Rightarrow> path option" where
  "relative_to p root =
     (if take (length root) p = root then Some (drop (length root) p) else None)"

fun join_path :: "string list \<Rightarrow> string" where
  "join_path [] = []"
| "join_path [x] = x"
| "join_path (x # y # ys) = x @ ''/'' @ join_path (y # ys)"

text \<open>\<open>str\<close> of a relative path; the empty relative path prints as a dot.\<close>

definition str_path :: "path \<Rightarrow> string" where
  "str_path rel = (if rel = [] then ''.'' else join_path rel)"

text \<open>\<open>s.split(sep)\<close> for a one-character separator.\<close>

fun split_on :: "char \<Rightarrow> string \<Rightarrow> string list" where
  "split_on sep [] = [[]]"
| "split_on sep (c # cs) =
     (if c = sep then [] # split_on sep cs
      else (case split_on sep cs of
              [] \<Rightarrow> [[c]]
            | w # ws \<Rightarrow> (c # w) # ws))"

subsection \<open>Shell patterns\<close>

text \<open>
  \<open>fnmatch.fnmatch(name, pattern)\<close> belongs to Python's library, so the selector takes
  it as a parameter. \<open>glob_match\<close> is its behaviour on a POSIX system for a pattern
  without a bracket expression: a star matches any run of characters (a slash
  included), a question mark any one character, every other character itself.
\<close>

fun glob_match :: "string \<Rightarrow> string \<Rightarrow> bool" where
  "glob_match [] [] = True"
| "glob_match (c # cs) [] = False"
| "glob_match [] (p # ps) = (p = CHR ''*'' \<and> glob_match [] ps)"
| "glob_match (c # cs) (p # ps) =
     (if p = CHR ''*'' then glob_match (c # cs) ps \<or> glob_match cs (p # ps)
      else (p = CHR ''?'' \<or> p = c) \<and> glob_match cs ps)"

subsection \<open>The class FileFilter\<close>

record file_filter =
  repo_path :: path
  extensions :: "(string \<times> string) list"
  max_size_bytes :: int
  ignore_patterns :: "string list"

text \<open>
  \<open>line.strip()\<close> removes the white space of both ends: the characters for which
  \<open>str.isspace\<close> holds, listed here by code point.
\<close>

definition is_space :: "char \<Rightarrow> bool" where
  "is_space c \<longleftrightarrow> (of_char c :: nat) \<in> set [9, 10, 11, 12, 13, 28, 29, 30, 31, 32, 133, 160]"

definition strip :: "string \<Rightarrow> string" where
  "strip s = rev (dropWhile is_space (rev (dropWhile is_space s)))"

text \<open>
  \<open>_load_gitignore\<close>: the second argument is the lines of \<open>.gitignore\<close> at the root,
  \<open>None\<close> when the file does not exist. Comments and blank lines are skipped, one
  leading slash is removed, and the rest is appended to the patterns.
\<close>

fun gitignore_lines :: "string list \<Rightarrow> string list" where
  "gitignore_lines [] = []"
| "gitignore_lines (l # ls) =
     (let line = strip l in
      if line = [] \<or> hd line = CHR ''#'' then gitignore_lines ls
      else (if hd line = CHR ''/'' then tl line else line) # gitignore_lines ls)"

definition load_gitignore :: "file_filter \<Rightarrow> string list option \<Rightarrow> file_filter" where
  "load_gitignore ff gitignore =
     (case gitignore of
        None \<Rightarrow> ff
      | Some ls \<Rightarrow> ff\<lparr>ignore_patterns := ignore_patterns ff @ gitignore_lines ls\<rparr>)"

text \<open>
  The constructor. \<open>ignore_patterns or IGNORE_PATTERNS.copy()\<close> takes the default for
  \<open>None\<close> and for an empty list.
\<close>

definition FileFilter ::
  "path \<Rightarrow> (string \<times> string) list \<Rightarrow> int \<Rightarrow> string list option \<Rightarrow> string list option \<Rightarrow> file_filter" where
  "FileFilter root exts max_size pats gitignore =
     load_gitignore
       \<lparr>repo_path = root, extensions = exts, max_size_bytes = max_size,
        ignore_patterns = (case pats of None \<Rightarrow> IGNORE_PATTERNS
                           | Some ps \<Rightarrow> if ps = [] then IGNORE_PATTERNS else ps)\<rparr>
       gitignore"

text \<open>
  \<open>_is_ignored\<close>: the loops return at the first match and have no other effect, so they
  are existence tests.
\<close>

definition is_ignored :: "(string \<Rightarrow> string \<Rightarrow> bool) \<Rightarrow> file_filter \<Rightarrow> path \<Rightarrow> bool" where
  "is_ignored fnmatch ff p =
     (case relative_to p (repo_path ff) of
        None \<Rightarrow> True
      | Some rel_path \<Rightarrow>
          (let path_str = str_path rel_path;
               parts = split_on CHR ''/'' path_str
           in list_ex (\<lambda>pattern.
                 fnmatch path_str pattern
                 \<or> fnmatch path_str (''**/'' @ pattern)
                 \<or> list_ex (\<lambda>part. fnmatch part pattern) parts)
               (ignore_patterns ff)))"

definition is_supported_file :: "file_filter \<Rightarrow> path \<Rightarrow> bool" where
  "is_supported_file ff p \<longleftrightarrow> suffix p \<in> set (map fst (extensions ff))"

text \<open>
  One entry of \<open>repo_path.rglob('*')\<close> with what the filesystem answers for it:
  \<open>is_dir()\<close> (which follows links), \<open>is_symlink()\<close>, and the size of
  \<open>stat(follow_symlinks=False)\<close>, \<open>None\<close> when that call raises \<open>OSError\<close>.
\<close>

record entry =
  entry_path :: path
  is_dir :: bool
  is_symlink :: bool
  lstat_size :: "int option"

definition is_size_ok :: "file_filter \<Rightarrow> entry \<Rightarrow> bool" where
  "is_size_ok ff e =
     (case lstat_size e of
        None \<Rightarrow> False
      | Some st_size \<Rightarrow> if is_symlink e then False else st_size \<le> max_size_bytes ff)"

text \<open>
  The local variables of \<open>filter_files\<close>. Only \<open>valid_files\<close> is returned; the three
  counters go to the log.
\<close>

record filter_state =
  valid_files :: "path list"
  skipped_ignored :: nat
  skipped_extension :: nat
  skipped_size :: nat

text \<open>The body of the loop of \<open>filter_files\<close>; each \<open>continue\<close> is a branch.\<close>

definition filter_step ::
  "(string \<Rightarrow> string \<Rightarrow> bool) \<Rightarrow> file_filter \<Rightarrow> filter_state \<Rightarrow> entry \<Rightarrow> filter_state" where
  "filter_step fnmatch ff st e =
     (if is_dir e then st
      else if is_symlink e then st\<lparr>skipped_ignored := skipped_ignored st + 1\<rparr>
      else if is_ignored fnmatch ff (entry_path e) then st\<lparr>skipped_ignored := skipped_ignored st + 1\<rparr>
      else if \<not> is_supported_file ff (entry_path e) then
        st\<lparr>skipped_extension := skipped_extension st + 1\<rparr>
      else if \<not> is_size_ok ff e then st\<lparr>skipped_size := skipped_size st + 1\<rparr>
      else st\<lparr>valid_files := valid_files st @ [entry_path e]\<rparr>)"

fun filter_loop ::
  "(string \<Rightarrow> string \<Rightarrow> bool) \<Rightarrow> file_filter \<Rightarrow> filter_state \<Rightarrow> entry list \<Rightarrow> filter_state" where
  "filter_loop fnmatch ff st [] = st"
| "filter_loop fnmatch ff st (e # es) = filter_loop fnmatch ff (filter_step fnmatch ff st e) es"

definition filter_files ::
  "(string \<Rightarrow> string \<Rightarrow> bool) \<Rightarrow> file_filter \<Rightarrow> entry list \<Rightarrow> filter_state" where
  "filter_files fnmatch ff entries =
     filter_loop fnmatch ff
       \<lparr>valid_files = [], skipped_ignored = 0, skipped_extension = 0, skipped_size = 0\<rparr>
       entries"

definition get_file_language :: "file_filter \<Rightarrow> path \<Rightarrow> string" where
  "get_file_language ff p =
     (case map_of (extensions ff) (suffix p) of None \<Rightarrow> ''unknown'' | Some lang \<Rightarrow> lang)"

definition get_relative_path :: "file_filter \<Rightarrow> path \<Rightarrow> string" where
  "get_relative_path ff p =
     (case relative_to p (repo_path ff) of
        Some rel \<Rightarrow> str_path rel
      | None \<Rightarrow> CHR ''/'' # join_path p)"

section \<open>Document identity (repo_loader.py)\<close>

text \<open>
  \<open>generate_document_id\<close> calls \<open>uuid.uuid5\<close> of Python's library, which hashes with
  SHA-1 (FIPS 180-4) and formats the result (RFC 4122). Both are written out here so that
  the identifier can be computed.
\<close>

type_synonym byte = "8 word"
type_synonym u32 = "32 word"
type_synonym u128 = "128 word"

text \<open>\<open>bytes(name, "utf-8")\<close>, for the code points a \<open>char\<close> can hold.\<close>

definition utf8_char :: "char \<Rightarrow> byte list" where
  "utf8_char c =
     (let n = (of_char c :: nat)
      in if n < 128 then [of_nat n] else [of_nat (192 + n div 64), of_nat (128 + n mod 64)])"

definition utf8 :: "string \<Rightarrow> byte list" where
  "utf8 s = concat (map utf8_char s)"

subsection \<open>SHA-1\<close>

definition be64 :: "nat \<Rightarrow> byte list" where
  "be64 n = map (\<lambda>i. of_nat (n div 256 ^ (7 - i))) [0..<8]"

definition sha1_pad :: "byte list \<Rightarrow> byte list" where
  "sha1_pad m =
     m @ [0x80] @ replicate ((119 - length m mod 64) mod 64) 0 @ be64 (8 * length m)"

fun be_words :: "byte list \<Rightarrow> u32 list" where
  "be_words (a # b # c # d # bs) =
     (push_bit 24 (ucast a) OR push_bit 16 (ucast b) OR push_bit 8 (ucast c) OR ucast d)
     # be_words bs"
| "be_words _ = []"

definition word_bytes :: "u32 \<Rightarrow> byte list" where
  "word_bytes w = [ucast (drop_bit 24 w), ucast (drop_bit 16 w), ucast (drop_bit 8 w), ucast w]"

fun sha1_expand :: "nat \<Rightarrow> u32 list \<Rightarrow> u32 list" where
  "sha1_expand 0 w = w"
| "sha1_expand (Suc n) w =
     (let t = length w
      in sha1_expand n
           (w @ [word_rotl 1 (w ! (t - 3) XOR w ! (t - 8) XOR w ! (t - 14) XOR w ! (t - 16))]))"

definition sha1_f :: "nat \<Rightarrow> u32 \<Rightarrow> u32 \<Rightarrow> u32 \<Rightarrow> u32" where
  "sha1_f t b c d =
     (if t < 20 then (b AND c) OR (NOT b AND d)
      else if t < 40 then b XOR c XOR d
      else if t < 60 then (b AND c) OR (b AND d) OR (c AND d)
      else b XOR c XOR d)"

definition sha1_k :: "nat \<Rightarrow> u32" where
  "sha1_k t =
     (if t < 20 then 0x5A827999
      else if t < 40 then 0x6ED9EBA1
      else if t < 60 then 0x8F1BBCDC
      else 0xCA62C1D6)"

type_synonym sha1_state = "u32 \<times> u32 \<times> u32 \<times> u32 \<times> u32"

fun sha1_round :: "u32 list \<Rightarrow> sha1_state \<Rightarrow> nat \<Rightarrow> sha1_state" where
  "sha1_round w (a, b, c, d, e) t =
     (word_rotl 5 a + sha1_f t b c d + e + sha1_k t + w ! t, a, word_rotl 30 b, c, d)"

fun sha1_block :: "sha1_state \<Rightarrow> byte list \<Rightarrow> sha1_state" where
  "sha1_block (h0, h1, h2, h3, h4) block =
     (case foldl (sha1_round (sha1_expand 64 (be_words block))) (h0, h1, h2, h3, h4) [0..<80] of
        (a, b, c, d, e) \<Rightarrow> (h0 + a, h1 + b, h2 + c, h3 + d, h4 + e))"

fun sha1_blocks :: "nat \<Rightarrow> sha1_state \<Rightarrow> byte list \<Rightarrow> sha1_state" where
  "sha1_blocks 0 h bs = h"
| "sha1_blocks (Suc n) h bs = sha1_blocks n (sha1_block h (take 64 bs)) (drop 64 bs)"

definition sha1 :: "byte list \<Rightarrow> byte list" where
  "sha1 m =
     (let p = sha1_pad m
      in case sha1_blocks (length p div 64)
                (0x67452301, 0xEFCDAB89, 0x98BADCFE, 0x10325476, 0xC3D2E1F0) p of
           (h0, h1, h2, h3, h4) \<Rightarrow>
             word_bytes h0 @ word_bytes h1 @ word_bytes h2 @ word_bytes h3 @ word_bytes h4)"

subsection \<open>uuid.uuid5 and the text of a UUID\<close>

text \<open>A \<open>UUID\<close> object is its 128-bit \<open>int\<close>.\<close>

definition NAMESPACE_DNS :: u128 where
  "NAMESPACE_DNS = 0x6ba7b8109dad11d180b400c04fd430c8"

definition uuid_bytes :: "u128 \<Rightarrow> byte list" where
  "uuid_bytes u = map (\<lambda>i. ucast (drop_bit (8 * (15 - i)) u)) [0..<16]"

text \<open>\<open>int.from_bytes(bytes)\<close>, big endian.\<close>

definition from_bytes :: "byte list \<Rightarrow> u128" where
  "from_bytes bs = foldl (\<lambda>acc b. push_bit 8 acc OR ucast b) 0 bs"

text \<open>
  \<open>UUID(bytes=hash[:16], version=5)\<close>: the variant bits are set to RFC 4122 and the
  version to 5.
\<close>

definition uuid5 :: "u128 \<Rightarrow> string \<Rightarrow> u128" where
  "uuid5 namespace name =
     (let hash = sha1 (uuid_bytes namespace @ utf8 name);
          i0 = from_bytes (take 16 hash);
          i1 = i0 AND NOT (push_bit 48 0xc000);
          i2 = i1 OR push_bit 48 0x8000;
          i3 = i2 AND NOT (push_bit 64 0xf000)
      in i3 OR push_bit 76 5)"

definition hex_char :: "nat \<Rightarrow> char" where
  "hex_char d = ''0123456789abcdef'' ! d"

text \<open>The last \<open>k\<close> hexadecimal digits of a number: \<open>'%032x'\<close> for \<open>k = 32\<close>.\<close>

fun hex_digits :: "nat \<Rightarrow> nat \<Rightarrow> string" where
  "hex_digits 0 n = []"
| "hex_digits (Suc k) n = hex_digits k (n div 16) @ [hex_char (n mod 16)]"

definition uuid_str :: "u128 \<Rightarrow> string" where
  "uuid_str u =
     (let hex = hex_digits 32 (unat u)
      in take 8 hex @ ''-'' @ take 4 (drop 8 hex) @ ''-'' @ take 4 (drop 12 hex) @ ''-''
         @ take 4 (drop 16 hex) @ ''-'' @ drop 20 hex)"

definition unique_key :: "string \<Rightarrow> string \<Rightarrow> string" where
  "unique_key url file_path = url @ '':'' @ file_path"

definition generate_document_id :: "string \<Rightarrow> string \<Rightarrow> string" where
  "generate_document_id url file_path = uuid_str (uuid5 NAMESPACE_DNS (unique_key url file_path))"

section \<open>Uploading and the orchestrator (r2r_client.py, repo_loader.py)\<close>

text \<open>
  Everything outside the process that \<open>load_repository\<close> talks to: the git checkout,
  the filesystem, the metadata extractor and the remote store. Each field is what the
  corresponding call answers; a call that can raise answers with a sum. \<open>'ci\<close> is the
  commit information and \<open>'md\<close> the metadata of a file, both passed on unread.
  \<^item> \<open>git_clone url branch update\<close>: \<open>self.git.clone\<close>, or \<open>clone_or_update\<close> when
    \<open>update\<close> holds; the local path of the repository.
  \<^item> \<open>read_gitignore root\<close>: the lines of \<open>.gitignore\<close>, \<open>None\<close> when there is none.
  \<^item> \<open>rglob root\<close>: the entries of \<open>root.rglob('*')\<close>.
  \<^item> \<open>create_collection name description\<close>: the \<open>id\<close> of the collection.
  \<^item> \<open>can_open p\<close>: whether \<open>open(p, 'rb')\<close> succeeds.
  \<^item> \<open>post_documents name md coll doc_id k\<close>: what attempt \<open>k\<close> of the upload request
    does.
  \<^item> \<open>json_results r\<close>: \<open>r.json()['results']\<close>, a dictionary.
  \<^item> \<open>wait_for_ingestion ids\<close>: the status of each document at the end of the wait.
  \<^item> \<open>extract_graph coll\<close>: the body of the \<open>try\<close> of step 6, the numbers of entities
    and relationships.
  \<^item> \<open>elapsed_seconds\<close>: \<open>int(time.time() - start_time)\<close> at the end.
\<close>

record ('ci, 'md) world =
  git_clone :: "string \<Rightarrow> string option \<Rightarrow> bool \<Rightarrow> error + path"
  git_get_commit_info :: "path \<Rightarrow> error + 'ci"
  read_gitignore :: "path \<Rightarrow> error + string list option"
  rglob :: "path \<Rightarrow> entry list"
  fnmatch_fn :: "string \<Rightarrow> string \<Rightarrow> bool"
  create_collection :: "string \<Rightarrow> string \<Rightarrow> error + string"
  build_metadata :: "path \<Rightarrow> string \<Rightarrow> string \<Rightarrow> string \<Rightarrow> 'ci \<Rightarrow> error + 'md"
  can_open :: "path \<Rightarrow> bool"
  post_documents :: "string \<Rightarrow> 'md \<Rightarrow> string option \<Rightarrow> string option \<Rightarrow> nat \<Rightarrow> http_result"
  json_results :: "response \<Rightarrow> error + (string \<rightharpoonup> string)"
  wait_for_ingestion :: "string list \<Rightarrow> error + (string \<times> string) list"
  extract_graph :: "string \<Rightarrow> error + nat \<times> nat"
  elapsed_seconds :: int

subsection \<open>R2RClient.upload_document\<close>

definition unsupported_extensions :: "string list" where
  "unsupported_extensions =
     [''.yaml'', ''.yml'', ''.toml'', ''.xml'', ''.sh'', ''.bash'', ''.zsh'', ''.fish'']"

text \<open>\<open>if collection_id:\<close> and \<open>if document_id:\<close> leave out \<open>None\<close> and the empty string.\<close>

definition truthy :: "string option \<Rightarrow> string option" where
  "truthy s = (case s of None \<Rightarrow> None | Some x \<Rightarrow> if x = [] then None else Some x)"

text \<open>
  The result and the events of the one \<open>_retry_request\<close> inside. A file that cannot be
  opened raises before any request is sent.
\<close>

definition upload_document ::
  "('ci, 'md) world \<Rightarrow> path \<Rightarrow> 'md \<Rightarrow> string option \<Rightarrow> string option
     \<Rightarrow> (error + (string \<rightharpoonup> string)) \<times> event list" where
  "upload_document w file_path metadata coll_id document_id =
     (if \<not> can_open w file_path then (Inl (OtherException ''OSError''), [])
      else
        (let original_name = path_name file_path;
             upload_name = (if suffix file_path \<in> set unsupported_extensions
                            then stem file_path @ ''.txt'' else original_name);
             (res, evs) = retry_request
                            (post_documents w upload_name metadata (truthy coll_id) (truthy document_id))
         in case res of
              Inl e \<Rightarrow> (Inl e, evs)
            | Inr resp \<Rightarrow> (json_results w resp, evs)))"

subsection \<open>RepositoryLoader.load_repository\<close>

record stats =
  repo_url :: string
  files_found :: nat
  files_uploaded :: nat
  files_failed :: nat
  collection_id :: "string option"
  kg_entities :: nat
  kg_relationships :: nat
  duration_seconds :: int

text \<open>
  What the upload loop does, in order: a call of \<open>upload_document\<close> for a file, with
  the events of its transport, and the \<open>time.sleep(UPLOAD_DELAY_MS / 1000)\<close> after it,
  recorded with its milliseconds.
\<close>

datatype loader_event = Upload path "event list" | Delay int

text \<open>
  The body of the \<open>try\<close> in the upload loop, for one file: the document id of the
  result, or the exception that the \<open>except\<close> clause catches. The sleep is the last
  statement of the \<open>try\<close>, so it is reached only when nothing before it raised.
\<close>

definition upload_file ::
  "('ci, 'md) world \<Rightarrow> file_filter \<Rightarrow> string \<Rightarrow> string \<Rightarrow> 'ci \<Rightarrow> string \<Rightarrow> path
     \<Rightarrow> (error + string) \<times> loader_event list" where
  "upload_file w ff url repo_name commit_info coll_id file_path =
     (let rel_path = get_relative_path ff file_path;
          doc_id = generate_document_id url rel_path;
          language = get_file_language ff file_path
      in case build_metadata w file_path language url repo_name commit_info of
           Inl e \<Rightarrow> (Inl e, [])
         | Inr metadata \<Rightarrow>
             (case upload_document w file_path metadata (Some coll_id) (Some doc_id) of
                (Inl e, evs) \<Rightarrow> (Inl e, [Upload file_path evs])
              | (Inr result, evs) \<Rightarrow>
                  (case result ''document_id'' of
                     None \<Rightarrow> (Inl (OtherException ''KeyError''), [Upload file_path evs])
                   | Some d \<Rightarrow> (Inr d, [Upload file_path evs, Delay UPLOAD_DELAY_MS]))))"

text \<open>
  The loop \<open>for i, file_path in enumerate(files, 1)\<close>: the statistics, the document ids
  collected so far, and the events.
\<close>

fun upload_files ::
  "('ci, 'md) world \<Rightarrow> file_filter \<Rightarrow> string \<Rightarrow> string \<Rightarrow> 'ci \<Rightarrow> string \<Rightarrow> path list
     \<Rightarrow> stats \<Rightarrow> string list \<Rightarrow> stats \<times> string list \<times> loader_event list" where
  "upload_files w ff url repo_name commit_info coll_id [] st ids = (st, ids, [])"
| "upload_files w ff url repo_name commit_info coll_id (file_path # rest) st ids =
     (case upload_file w ff url repo_name commit_info coll_id file_path of
        (Inr d, evs) \<Rightarrow>
          (case upload_files w ff url repo_name commit_info coll_id rest
                  (st\<lparr>files_uploaded := files_uploaded st + 1\<rparr>) (ids @ [d]) of
             (st', ids', evs') \<Rightarrow> (st', ids', evs @ evs'))
      | (Inl e, evs) \<Rightarrow>
          (case upload_files w ff url repo_name commit_info coll_id rest
                  (st\<lparr>files_failed := files_failed st + 1\<rparr>) ids of
             (st', ids', evs') \<Rightarrow> (st', ids', evs @ evs')))"

text \<open>
  \<open>load_repository\<close>. An exception that leaves the function is \<open>Inl\<close>; otherwise the
  statistics are returned. The log lines are left out, and so are the arguments that
  only reach them (\<open>quality_mode\<close>, \<open>verbose\<close>).
\<close>

definition load_repository ::
  "('ci, 'md) world \<Rightarrow> string \<Rightarrow> string option \<Rightarrow> string option \<Rightarrow> bool \<Rightarrow> bool
     \<Rightarrow> (error + stats) \<times> loader_event list" where
  "load_repository w url collection_name branch update_if_exists extract_kg =
     (let stats0 = \<lparr>repo_url = url, files_found = 0, files_uploaded = 0, files_failed = 0,
                    collection_id = None, kg_entities = 0, kg_relationships = 0,
                    duration_seconds = 0\<rparr>
      in case git_clone w url branch update_if_exists of
           Inl e \<Rightarrow> (Inl e, [])
         | Inr root \<Rightarrow>
      (case git_get_commit_info w root of
           Inl e \<Rightarrow> (Inl e, [])
         | Inr commit_info \<Rightarrow>
      (case read_gitignore w root of
           Inl e \<Rightarrow> (Inl e, [])
         | Inr gitignore \<Rightarrow>
      (let repo_name = path_name root;
           ff = FileFilter root SUPPORTED_EXTENSIONS MAX_FILE_SIZE_BYTES None gitignore;
           files = valid_files (filter_files (fnmatch_fn w) ff (rglob w root));
           stats1 = stats0\<lparr>files_found := length files\<rparr>
       in if files = [] then (Inr stats1, [])
          else
            (let name = (case truthy collection_name of
                           None \<Rightarrow> ''repo-'' @ repo_name
                         | Some n \<Rightarrow> n)
             in case create_collection w name (''Code repository: '' @ url) of
                  Inl e \<Rightarrow> (Inl e, [])
                | Inr coll_id \<Rightarrow>
                    (case upload_files w ff url repo_name commit_info coll_id files
                            (stats1\<lparr>collection_id := Some coll_id\<rparr>) [] of
                       (stats2, document_ids, evs) \<Rightarrow>
                         (case wait_for_ingestion w document_ids of
                            Inl e \<Rightarrow> (Inl e, evs)
                          | Inr statuses \<Rightarrow>
                              (let stats3 =
                                     (if extract_kg then
                                        (case extract_graph w coll_id of
                                           Inl e \<Rightarrow> stats2
                                         | Inr (entities, relationships) \<Rightarrow>
                                             stats2\<lparr>kg_entities := entities,
                                                    kg_relationships := relationships\<rparr>)
                                      else stats2)
                               in (Inr (stats3\<lparr>duration_seconds := elapsed_seconds w\<rparr>), evs)))))))))"

section \<open>Predicates used in the statements\<close>



text \<open>The message of the error raised for a 4xx response other than 429.\<close>

definition client_error_message :: "response \<Rightarrow> string" where
  "client_error_message r = ''HTTP '' @ str_int (status_code r) @ '': '' @ take 200 (resp_text r)"

text \<open>
  The entries that \<open>filter_files\<close> keeps, and those that reach the size check and fail
  it: the checks of the loop body, in its order.
\<close>

definition accepted :: "(string \<Rightarrow> string \<Rightarrow> bool) \<Rightarrow> file_filter \<Rightarrow> entry \<Rightarrow> bool" where
  "accepted fnmatch ff e \<longleftrightarrow>
     \<not> is_dir e \<and> \<not> is_symlink e \<and> \<not> is_ignored fnmatch ff (entry_path e)
     \<and> is_supported_file ff (entry_path e) \<and> is_size_ok ff e"

definition rejected_for_size :: "(string \<Rightarrow> string \<Rightarrow> bool) \<Rightarrow> file_filter \<Rightarrow> entry \<Rightarrow> bool" where
  "rejected_for_size fnmatch ff e \<longleftrightarrow>
     \<not> is_dir e \<and> \<not> is_symlink e \<and> \<not> is_ignored fnmatch ff (entry_path e)
     \<and> is_supported_file ff (entry_path e) \<and> \<not> is_size_ok ff e"

text \<open>
  Whether an upload loop kept its rate limit: at every call of \<open>upload_document\<close> but
  the first, the process has slept at least \<open>UPLOAD_DELAY_MS\<close> milliseconds since the
  call before it began. The first argument is the time slept since that call, in
  milliseconds, \<open>None\<close> before the first call; the sleeps of the transport inside a call
  (in seconds) count as well as the sleeps of the loop.
\<close>

fun delays_kept :: "int option \<Rightarrow> loader_event list \<Rightarrow> bool" where
  "delays_kept slept [] = True"
| "delays_kept slept (Delay d # evs) = delays_kept (map_option (\<lambda>ms. ms + d) slept) evs"
| "delays_kept slept (Upload p t # evs) =
     ((case slept of None \<Rightarrow> True | Some ms \<Rightarrow> UPLOAD_DELAY_MS \<le> ms)
      \<and> delays_kept (Some (1000 * total_sleep t)) evs)"

definition delay_between_uploads :: "loader_event list \<Rightarrow> bool" where
  "delay_between_uploads evs = delays_kept None evs"


text \<open>
  A small world for the concrete runs below: a checkout at \<open>/tmp/repo\<close> without
  \<open>.gitignore\<close> that holds the given regular files of ten bytes each, and a store that
  answers 404 to the upload of the file named \<open>bad\<close> and 200 to every other upload.
\<close>

definition example_world :: "path list \<Rightarrow> string \<Rightarrow> (unit, unit) world" where
  "example_world files bad =
     \<lparr>git_clone = (\<lambda>url branch update. Inr [''tmp'', ''repo'']),
      git_get_commit_info = (\<lambda>root. Inr ()),
      read_gitignore = (\<lambda>root. Inr None),
      rglob = (\<lambda>root. map (\<lambda>p. \<lparr>entry_path = p, is_dir = False, is_symlink = False,
                                  lstat_size = Some 10\<rparr>) files),
      fnmatch_fn = glob_match,
      create_collection = (\<lambda>name description. Inr ''c1''),
      build_metadata = (\<lambda>p language url repo_name commit_info. Inr ()),
      can_open = (\<lambda>p. True),
      post_documents = (\<lambda>name md coll doc_id k.
         Response \<lparr>status_code = (if name = bad then 404 else 200), resp_text = []\<rparr>),
      json_results = (\<lambda>r. Inr [''document_id'' \<mapsto> ''doc'']),
      wait_for_ingestion = (\<lambda>ids. Inr (map (\<lambda>i. (i, ''success'')) ids)),
      extract_graph = (\<lambda>coll. Inr (0, 0)),
      elapsed_seconds = 1\<rparr>"

section \<open>Properties of the transport\<close>

lemma str_nat_attempts: "str_nat API_RETRY_ATTEMPTS = ''3''"
  by (simp add: API_RETRY_ATTEMPTS_def str_nat.simps digit_char_def)

lemma attempts_range: "[0..<API_RETRY_ATTEMPTS] = [0, 1, 2]"
  by (simp add: API_RETRY_ATTEMPTS_def upt_rec)





text \<open>
  Claim C5, as the code has it. The success codes of \<open>_retry_request\<close> are 200, 201
  and 202. At whichever attempt a response with one of them arrives, that response is
  returned at once: the attempt's only event is its request, whatever attempts were left;
  when it is the first response, the whole call is one request and no sleep.
\<close>

theorem C5_success_code_returns_immediately:
  assumes "srv attempt = Response r" and "status_code r \<in> {200, 201, 202}"
  shows "retry_attempts srv (attempt # rest) = (Inr r, [Request attempt])
         \<and> (attempt = 0 \<longrightarrow> retry_request srv = (Inr r, [Request 0]))"
  using assms by (auto simp: retry_request_def attempts_range)

theorem C5_witness:
  "(\<lambda>k. Response \<lparr>status_code = 201, resp_text = ''ok''\<rparr>) 0 = Response \<lparr>status_code = 201, resp_text = ''ok''\<rparr>
   \<and> status_code \<lparr>status_code = 201, resp_text = ''ok''\<rparr> \<in> {200, 201, 202}
   \<and> retry_request (\<lambda>k. Response \<lparr>status_code = 201, resp_text = ''ok''\<rparr>)
        = (Inr \<lparr>status_code = 201, resp_text = ''ok''\<rparr>, [Request 0])"
  using C5_success_code_returns_immediately
    [of "\<lambda>k. Response \<lparr>status_code = 201, resp_text = ''ok''\<rparr>" 0
        "\<lparr>status_code = 201, resp_text = ''ok''\<rparr>" "[1, 2]"]
  by simp

text \<open>
  The claim C5 as stated (every 2xx status returns at once) fails: 204 is in the 2xx
  range and is not a success code of the client. A server that answers 204 is asked three
  times and the call raises.
\<close>

theorem C5_counterexample:
  "retry_request (\<lambda>k. Response \<lparr>status_code = 204, resp_text = []\<rparr>)
     = (Inl (R2RClientError ''Failed after 3 attempts''), [Request 0, Request 1, Request 2])"
  by (simp add: retry_request_def attempts_range str_nat_attempts)

text \<open>
  Claim C6. An attempt that receives status 429 sends its request, sleeps
  \<open>API_RETRY_BACKOFF * 2 ^ attempt\<close> seconds and goes on with the attempts that are
  left. For a server that answers 429, 429 and then 200, the call returns the third
  response after exactly three requests, and the sleeps are
  \<open>API_RETRY_BACKOFF * 2 ^ 0\<close> and \<open>API_RETRY_BACKOFF * 2 ^ 1\<close>.
\<close>

theorem C6_rate_limit_backoff:
  "(srv attempt = Response r \<and> status_code r = 429 \<longrightarrow>
      retry_attempts srv (attempt # rest)
        = (fst (retry_attempts srv rest),
           Request attempt # Sleep (API_RETRY_BACKOFF * 2 ^ attempt) # snd (retry_attempts srv rest)))
   \<and> (srv 0 = Response r0 \<and> status_code r0 = 429 \<and> srv 1 = Response r1 \<and> status_code r1 = 429
       \<and> srv 2 = Response r2 \<and> status_code r2 = 200 \<longrightarrow>
      retry_request srv
        = (Inr r2, [Request 0, Sleep (API_RETRY_BACKOFF * 2 ^ 0), Request 1,
                    Sleep (API_RETRY_BACKOFF * 2 ^ 1), Request 2])
      \<and> total_sleep (snd (retry_request srv)) = API_RETRY_BACKOFF * 2 ^ 0 + API_RETRY_BACKOFF * 2 ^ 1
      \<and> requests_sent (snd (retry_request srv)) = [0, 1, 2])"
  by (auto simp: retry_request_def attempts_range Let_def mult.commute split: prod.splits)

theorem C6_witness:
  "(\<lambda>k::nat. Response \<lparr>status_code = (if k < 2 then 429 else 200), resp_text = []\<rparr>) 0
      = Response \<lparr>status_code = 429, resp_text = []\<rparr>
   \<and> retry_request (\<lambda>k. Response \<lparr>status_code = (if k < 2 then 429 else 200), resp_text = []\<rparr>)
      = (Inr \<lparr>status_code = 200, resp_text = []\<rparr>,
         [Request 0, Sleep 2, Request 1, Sleep 4, Request 2])
   \<and> total_sleep (snd (retry_request
        (\<lambda>k. Response \<lparr>status_code = (if k < 2 then 429 else 200), resp_text = []\<rparr>))) = 6"
  using C6_rate_limit_backoff
    [of "\<lambda>k. Response \<lparr>status_code = (if k < 2 then 429 else 200), resp_text = []\<rparr>" 0
        "\<lparr>status_code = 429, resp_text = []\<rparr>" "[1, 2]"
        "\<lparr>status_code = 429, resp_text = []\<rparr>" "\<lparr>status_code = 429, resp_text = []\<rparr>"
        "\<lparr>status_code = 200, resp_text = []\<rparr>"]
  by (simp add: API_RETRY_BACKOFF_def)

text \<open>
  Claim C7. An attempt that receives a 4xx status other than 429 raises
  \<open>R2RClientError\<close> at once: the message holds the status code and the first 200
  characters of the body, the attempt's only event is its request, and no attempt that
  was left is made. When it is the first response, the whole call is one request and no
  sleep.
\<close>

theorem C7_client_error_not_retried:
  assumes "srv attempt = Response r"
    and "400 \<le> status_code r" and "status_code r < 500" and "status_code r \<noteq> 429"
  shows "retry_attempts srv (attempt # rest)
           = (Inl (R2RClientError (''HTTP '' @ str_int (status_code r) @ '': '' @ take 200 (resp_text r))),
              [Request attempt])
         \<and> length (take 200 (resp_text r)) \<le> 200
         \<and> (attempt = 0 \<longrightarrow>
              requests_sent (snd (retry_request srv)) = [0] \<and> total_sleep (snd (retry_request srv)) = 0
              \<and> fst (retry_request srv) = Inl (R2RClientError (client_error_message r)))"
  using assms by (auto simp: retry_request_def attempts_range client_error_message_def)

theorem C7_witness:
  "retry_request (\<lambda>k. Response \<lparr>status_code = 404, resp_text = ''Not Found''\<rparr>)
     = (Inl (R2RClientError ''HTTP 404: Not Found''), [Request 0])"
proof -
  have s: "str_int 404 = ''404''"
    by (simp add: str_int_def str_nat.simps digit_char_def)
  show ?thesis
    using C7_client_error_not_retried
      [of "\<lambda>k. Response \<lparr>status_code = 404, resp_text = ''Not Found''\<rparr>" 0
          "\<lparr>status_code = 404, resp_text = ''Not Found''\<rparr>" "[1, 2]"]
    by (simp add: retry_request_def attempts_range s)
qed

section \<open>Properties of the file selection\<close>

lemma filter_loop_valid_files:
  "valid_files (filter_loop fm ff st es)
     = valid_files st @ map entry_path (filter (accepted fm ff) es)"
  by (induction es arbitrary: st) (auto simp: filter_step_def accepted_def)

lemma filter_loop_skipped_size:
  "skipped_size (filter_loop fm ff st es)
     = skipped_size st + length (filter (rejected_for_size fm ff) es)"
  by (induction es arbitrary: st) (auto simp: filter_step_def rejected_for_size_def)

lemma filter_files_valid_files:
  "valid_files (filter_files fm ff es) = map entry_path (filter (accepted fm ff) es)"
  by (simp add: filter_files_def filter_loop_valid_files)

lemma filter_files_skipped_size:
  "skipped_size (filter_files fm ff es) = length (filter (rejected_for_size fm ff) es)"
  by (simp add: filter_files_def filter_loop_skipped_size)

lemma not_accepted_not_listed:
  assumes "e \<in> set entries" and "\<not> accepted fm ff e" and "distinct (map entry_path entries)"
  shows "entry_path e \<notin> set (valid_files (filter_files fm ff entries))"
proof
  assume "entry_path e \<in> set (valid_files (filter_files fm ff entries))"
  then obtain e' where e': "e' \<in> set entries" "accepted fm ff e'" "entry_path e' = entry_path e"
    by (auto simp: filter_files_valid_files)
  with assms(1,3) have "e' = e" by (meson distinct_map inj_onD)
  with e'(2) assms(2) show False by simp
qed

text \<open>
  Claim C3, as the code has it. A regular file that is no symbolic link and whose size
  exceeds \<open>max_size_bytes\<close> is never added to the result. Which counter it increments
  follows the order of the checks (ignore patterns, extension, size): the size-skip
  counter, and no other, when the file is not ignored and has a supported extension;
  the ignored counter when a pattern matches it; the extension counter when no pattern
  matches and the extension is not supported. Over a whole listing the size-skip counter
  ends as the number of entries that pass the earlier checks and fail the size check.
\<close>

theorem C3_oversized_file_skipped:
  assumes "\<not> is_dir e" and "\<not> is_symlink e"
    and "lstat_size e = Some s" and "s > max_size_bytes ff"
  shows "valid_files (filter_step fm ff st e) = valid_files st
       \<and> (\<not> is_ignored fm ff (entry_path e) \<and> is_supported_file ff (entry_path e) \<longrightarrow>
            filter_step fm ff st e = st\<lparr>skipped_size := skipped_size st + 1\<rparr>)
       \<and> (is_ignored fm ff (entry_path e) \<longrightarrow>
            filter_step fm ff st e = st\<lparr>skipped_ignored := skipped_ignored st + 1\<rparr>)
       \<and> (\<not> is_ignored fm ff (entry_path e) \<and> \<not> is_supported_file ff (entry_path e) \<longrightarrow>
            filter_step fm ff st e = st\<lparr>skipped_extension := skipped_extension st + 1\<rparr>)
       \<and> (e \<in> set entries \<and> distinct (map entry_path entries) \<longrightarrow>
            entry_path e \<notin> set (valid_files (filter_files fm ff entries)))
       \<and> skipped_size (filter_files fm ff entries)
           = length (filter (rejected_for_size fm ff) entries)"
proof -
  from assms have size: "\<not> is_size_ok ff e" by (simp add: is_size_ok_def)
  then have "\<not> accepted fm ff e" by (simp add: accepted_def)
  then have "e \<in> set entries \<and> distinct (map entry_path entries) \<longrightarrow>
            entry_path e \<notin> set (valid_files (filter_files fm ff entries))"
    using not_accepted_not_listed by blast
  then show ?thesis using assms(1,2) size
    by (simp add: filter_step_def filter_files_skipped_size)
qed

theorem C3_witness:
  "filter_files glob_match (FileFilter [''repo''] SUPPORTED_EXTENSIONS MAX_FILE_SIZE_BYTES None None)
     [\<lparr>entry_path = [''repo'', ''src'', ''big.py''], is_dir = False, is_symlink = False,
       lstat_size = Some (MAX_FILE_SIZE_BYTES + 1)\<rparr>]
   = \<lparr>valid_files = [], skipped_ignored = 0, skipped_extension = 0, skipped_size = 1\<rparr>"
proof -
  let ?ff = "FileFilter [''repo''] SUPPORTED_EXTENSIONS MAX_FILE_SIZE_BYTES None None"
  let ?e = "\<lparr>entry_path = [''repo'', ''src'', ''big.py''], is_dir = False, is_symlink = False,
             lstat_size = Some (MAX_FILE_SIZE_BYTES + 1)\<rparr>"
  let ?st = "\<lparr>valid_files = [], skipped_ignored = 0, skipped_extension = 0, skipped_size = 0\<rparr>"
  have h1: "\<not> is_dir ?e" and h2: "\<not> is_symlink ?e"
    and h3: "lstat_size ?e = Some (MAX_FILE_SIZE_BYTES + 1)" by simp_all
  have h4: "MAX_FILE_SIZE_BYTES + 1 > max_size_bytes ?ff"
    by (simp add: FileFilter_def load_gitignore_def)
  have h5: "\<not> is_ignored glob_match ?ff (entry_path ?e)" by code_simp
  have h6: "is_supported_file ?ff (entry_path ?e)" by code_simp
  from C3_oversized_file_skipped [OF h1 h2 h3 h4, of glob_match ?st] h5 h6
  have "filter_step glob_match ?ff ?st ?e = ?st\<lparr>skipped_size := skipped_size ?st + 1\<rparr>"
    by blast
  then show ?thesis by (simp add: filter_files_def)
qed

text \<open>
  The claim C3 as stated fails for an oversized file with an unsupported extension: the
  extension check comes first, so the file is counted there and the size-skip counter
  stays at zero.
\<close>

theorem C3_counterexample:
  "filter_files glob_match (FileFilter [''repo''] SUPPORTED_EXTENSIONS MAX_FILE_SIZE_BYTES None None)
     [\<lparr>entry_path = [''repo'', ''big.bin''], is_dir = False, is_symlink = False,
       lstat_size = Some (MAX_FILE_SIZE_BYTES + 1)\<rparr>]
   = \<lparr>valid_files = [], skipped_ignored = 0, skipped_extension = 1, skipped_size = 0\<rparr>"
  by code_simp

text \<open>
  Claim C9. An entry that is a symbolic link never reaches the returned list: the loop
  body leaves \<open>valid_files\<close> as it was, whatever the link's name, extension, size and
  whether \<open>stat\<close> succeeds on it; over a whole listing (whose paths are distinct, as
  those of \<open>rglob\<close> are) the link's path is not in the result.
\<close>

theorem C9_symlink_never_selected:
  assumes "is_symlink e"
  shows "valid_files (filter_step fm ff st e) = valid_files st
       \<and> (e \<in> set entries \<and> distinct (map entry_path entries) \<longrightarrow>
            entry_path e \<notin> set (valid_files (filter_files fm ff entries)))"
proof -
  from assms have "\<not> accepted fm ff e" by (simp add: accepted_def)
  then have "e \<in> set entries \<and> distinct (map entry_path entries) \<longrightarrow>
            entry_path e \<notin> set (valid_files (filter_files fm ff entries))"
    using not_accepted_not_listed by blast
  then show ?thesis using assms by (simp add: filter_step_def)
qed

theorem C9_witness:
  "[''repo'', ''link.py''] \<notin> set (valid_files
     (filter_files glob_match (FileFilter [''repo''] SUPPORTED_EXTENSIONS MAX_FILE_SIZE_BYTES None None)
        [\<lparr>entry_path = [''repo'', ''link.py''], is_dir = False, is_symlink = True, lstat_size = Some 10\<rparr>,
         \<lparr>entry_path = [''repo'', ''dangling.py''], is_dir = False, is_symlink = True, lstat_size = None\<rparr>,
         \<lparr>entry_path = [''repo'', ''main.py''], is_dir = False, is_symlink = False, lstat_size = Some 10\<rparr>]))"
  using C9_symlink_never_selected
    [of "\<lparr>entry_path = [''repo'', ''link.py''], is_dir = False, is_symlink = True, lstat_size = Some 10\<rparr>"
        glob_match "FileFilter [''repo''] SUPPORTED_EXTENSIONS MAX_FILE_SIZE_BYTES None None"
        "\<lparr>valid_files = [], skipped_ignored = 0, skipped_extension = 0, skipped_size = 0\<rparr>"
        "[\<lparr>entry_path = [''repo'', ''link.py''], is_dir = False, is_symlink = True, lstat_size = Some 10\<rparr>,
         \<lparr>entry_path = [''repo'', ''dangling.py''], is_dir = False, is_symlink = True, lstat_size = None\<rparr>,
         \<lparr>entry_path = [''repo'', ''main.py''], is_dir = False, is_symlink = False, lstat_size = Some 10\<rparr>]"]
  by simp

section \<open>Properties of the document identity\<close>








text \<open>
  Claim C10. The identifier depends on the two arguments only through the string
  \<open>url:path\<close>: two pairs whose joined strings are equal get the same identifier, as
  the pairs \<open>('a:b', 'c')\<close> and \<open>('a', 'b:c')\<close> do.
\<close>

theorem C10_identifier_depends_on_joined_key:
  assumes "url @ '':'' @ fp = url' @ '':'' @ fp'"
  shows "generate_document_id url fp = generate_document_id url' fp'"
  using assms by (simp add: generate_document_id_def unique_key_def)

theorem C10_witness:
  "(''a:b'', ''c'') \<noteq> (''a'', ''b:c'')
   \<and> generate_document_id ''a:b'' ''c'' = generate_document_id ''a'' ''b:c''"
  using C10_identifier_depends_on_joined_key [of "''a:b''" "''c''" "''a''" "''b:c''"]
  by simp

section \<open>Properties of the orchestrator\<close>




lemma two_files_selected:
  "valid_files (filter_files glob_match (FileFilter [''tmp'', ''repo''] SUPPORTED_EXTENSIONS MAX_FILE_SIZE_BYTES None None)
     [\<lparr>entry_path = [''tmp'', ''repo'', ''f1.py''], is_dir = False, is_symlink = False, lstat_size = Some 10\<rparr>,
      \<lparr>entry_path = [''tmp'', ''repo'', ''f2.py''], is_dir = False, is_symlink = False, lstat_size = Some 10\<rparr>])
   = [[''tmp'', ''repo'', ''f1.py''], [''tmp'', ''repo'', ''f2.py'']]"
  by code_simp

lemma suffix_py: "suffix [''tmp'', ''repo'', a # b # ''.py''] = ''.py''"
  by (simp add: suffix_def suffix_of_def rfind_dot_def path_name_def)

lemma example_upload_file:
  "upload_file (example_world fs bad) ff url rn ci cid [''tmp'', ''repo'', a # b # ''.py'']
     = (if a # b # ''.py'' = bad
        then (Inl (R2RClientError ''HTTP 404: ''), [Upload [''tmp'', ''repo'', a # b # ''.py''] [Request 0]])
        else (Inr ''doc'', [Upload [''tmp'', ''repo'', a # b # ''.py''] [Request 0], Delay UPLOAD_DELAY_MS]))"
  by (simp add: upload_file_def upload_document_def example_world_def suffix_py
      unsupported_extensions_def path_name_def retry_request_def attempts_range
      str_int_def str_nat.simps digit_char_def)


text \<open>
  Claim C4 at a concrete run: two files, and a store that answers 404 to the upload of
  the first. The \<open>time.sleep(UPLOAD_DELAY_MS / 1000)\<close> of the loop is the last statement
  of the \<open>try\<close>, so the exception of the first upload skips it: the second call of
  \<open>upload_document\<close> follows the first with no sleep in between, neither of the loop
  nor of the transport.
\<close>

theorem C4_no_delay_after_failed_upload:
  "snd (load_repository (example_world [[''tmp'', ''repo'', ''f1.py''], [''tmp'', ''repo'', ''f2.py'']] ''f1.py'')
          ''https://github.com/user/repo'' None None False False)
     = [Upload [''tmp'', ''repo'', ''f1.py''] [Request 0],
        Upload [''tmp'', ''repo'', ''f2.py''] [Request 0], Delay UPLOAD_DELAY_MS]
   \<and> \<not> delay_between_uploads
         (snd (load_repository (example_world [[''tmp'', ''repo'', ''f1.py''], [''tmp'', ''repo'', ''f2.py'']] ''f1.py'')
                 ''https://github.com/user/repo'' None None False False))"
proof -
  let ?files = "[[''tmp'', ''repo'', ''f1.py''], [''tmp'', ''repo'', ''f2.py'']]"
  let ?w = "example_world ?files ''f1.py''"
  have sel: "git_clone ?w = (\<lambda>url branch update. Inr [''tmp'', ''repo''])"
    "git_get_commit_info ?w = (\<lambda>root. Inr ())"
    "read_gitignore ?w = (\<lambda>root. Inr None)"
    "fnmatch_fn ?w = glob_match"
    "create_collection ?w = (\<lambda>name description. Inr ''c1'')"
    "wait_for_ingestion ?w = (\<lambda>ids. Inr (map (\<lambda>i. (i, ''success'')) ids))"
    "rglob ?w [''tmp'', ''repo'']
       = [\<lparr>entry_path = [''tmp'', ''repo'', ''f1.py''], is_dir = False, is_symlink = False,
            lstat_size = Some 10\<rparr>,
          \<lparr>entry_path = [''tmp'', ''repo'', ''f2.py''], is_dir = False, is_symlink = False,
            lstat_size = Some 10\<rparr>]"
    by (simp_all add: example_world_def)
  have "snd (load_repository ?w ''https://github.com/user/repo'' None None False False)
     = [Upload [''tmp'', ''repo'', ''f1.py''] [Request 0],
        Upload [''tmp'', ''repo'', ''f2.py''] [Request 0], Delay UPLOAD_DELAY_MS]"
    by (simp add: load_repository_def Let_def sel two_files_selected example_upload_file truthy_def)
  then show ?thesis by (simp add: delay_between_uploads_def UPLOAD_DELAY_MS_def)
qed

end
